theory Spec2Isabelle
  imports Main
begin

section \<open>The WebSocket subscription client\<close>

text \<open>
  A shallow embedding of the class \<open>WebSocketClient\<close> (the subscription transport of the
  RPC client). The instance fields of the class are a record; every \<open>subscribe\<close> call
  adds a session (its transport, its closure variables) to a list; the event loop is a
  step function over the events the environment can deliver: calls of the public
  methods, the resolution of the handshake promise, the transport's events and timers.
  What the callbacks of the caller observe is appended to a log.
\<close>

subsection \<open>Values exchanged with the caller\<close>

text \<open>An optional property of an options object: not there, there with the value
  \<open>undefined\<close>, or there with a value. Object spread tells the first two apart.\<close>

datatype 'a optional = Missing | Undefined | Present 'a

type_synonym payload = int

record rpc_data =
  data :: payload
  metadata :: string

record rpc_error =
  code :: int
  message :: string

text \<open>The argument of the callback given to \<open>next\<close>: a result or a JSON-RPC error.\<close>

datatype cb_value = Result rpc_data | Failure rpc_error

record request =
  rmethod :: string
  params :: "string list"

text \<open>\<open>retries\<close> is a number or a function; a function is asked again at every decision
  and may answer differently each time, so it reads the number of questions asked
  so far.\<close>

datatype retries = RNum int | RFun "nat \<Rightarrow> bool"

record reconnect_settings =
  retries :: "retries option"
  delay :: "int option"
  onFailed :: "nat option"

datatype auto_reconnect = ARBool bool | ARObj reconnect_settings

text \<open>Callbacks of the caller are named by numbers; calling one is an entry of the log.\<close>

record stream_options =
  once :: bool
  filter_fn :: "(payload \<Rightarrow> bool) optional"
  timeout :: int
  onError :: "nat option"
  autoReconnect :: "auto_reconnect option"

definition WS_DEFAULT_OPTIONS :: stream_options where
  "WS_DEFAULT_OPTIONS =
     \<lparr>once = False, filter_fn = Present (\<lambda>_. True), timeout = 5000,
      onError = None, autoReconnect = None\<rparr>"

text \<open>\<open>{ ...d, ...u }\<close>: every property that \<open>u\<close> has wins, also one whose value is
  \<open>undefined\<close>. \<open>once\<close> and \<open>timeout\<close> are required properties of \<open>StreamOptions\<close>.\<close>

definition spread :: "stream_options \<Rightarrow> stream_options \<Rightarrow> stream_options" where
  "spread d u =
     \<lparr>once = once u,
      filter_fn = (case filter_fn u of Missing \<Rightarrow> filter_fn d | f \<Rightarrow> f),
      timeout = timeout u,
      onError = (case onError u of None \<Rightarrow> onError d | h \<Rightarrow> h),
      autoReconnect = (case autoReconnect u of None \<Rightarrow> autoReconnect d | a \<Rightarrow> a)\<rparr>"

definition no_settings :: reconnect_settings where
  "no_settings = \<lparr>retries = None, delay = None, onFailed = None\<rparr>"

definition reconnectSettings :: "stream_options \<Rightarrow> reconnect_settings option" where
  "reconnectSettings options =
     (case autoReconnect options of
        Some (ARObj s) \<Rightarrow> Some s
      | Some (ARBool True) \<Rightarrow> Some no_settings
      | _ \<Rightarrow> None)"

subsection \<open>The endpoint URL\<close>

text \<open>The platform's \<open>URL\<close> class is not part of the sources: a parsed URL is a record of
  its components, the parser is a parameter of the constructor (\<open>None\<close> when \<open>new URL\<close>
  throws). Setting \<open>pathname\<close> does nothing on a URL with an opaque path.\<close>

record url =
  protocol :: string
  host :: string
  pathname :: string
  search :: string
  hash :: string
  opaque_path :: bool

definition set_pathname :: "string \<Rightarrow> url \<Rightarrow> url" where
  "set_pathname p u = (if opaque_path u then u else u\<lparr>pathname := p\<rparr>)"

definition href :: "url \<Rightarrow> string" where
  "href u =
     protocol u @ (if opaque_path u then [] else ''//'' @ host u) @ pathname u @ search u @ hash u"

text \<open>\<open>url.replace(/^http/, 'ws')\<close>\<close>

definition replace_http :: "string \<Rightarrow> string" where
  "replace_http s = (if take 4 s = ''http'' then ''ws'' @ drop 4 s else s)"

subsection \<open>State\<close>

record ws_client =
  url :: url
  isOpen :: bool
  explicitlyClosed :: bool
  retriesCount :: nat
  reconnectTimer :: "nat option"

definition new_client :: "(string \<Rightarrow> url option) \<Rightarrow> string \<Rightarrow> ws_client option" where
  "new_client parse u =
     (case parse (replace_http u) of
        None \<Rightarrow> None
      | Some wsUrl \<Rightarrow>
          Some \<lparr>url = set_pathname ''/ws'' wsUrl, isOpen = False, explicitlyClosed = False,
                retriesCount = 0, reconnectTimer = None\<rparr>)"

text \<open>Who called \<open>subscribe\<close>: the caller, or the timer callback set by the close handler
  of an earlier session.\<close>

datatype origin = ByCaller | ByTimer nat

datatype phase = Connecting | Subscribed nat | Rejected

text \<open>One \<open>subscribe\<close> call: its parameters, the URL its transport was opened on, the state
  of its handshake, the callback registered by \<open>next\<close>, and whether \<open>client.close()\<close> was
  called on its transport client.\<close>

record session =
  body :: request
  userOptions :: stream_options
  target :: string
  origin :: origin
  phase :: phase
  callback :: "nat option"
  closed :: bool

datatype timer_state = Pending | Cleared | Fired

record timer =
  owner :: nat
  ms :: int
  tstate :: timer_state

datatype effect =
    Connect string
  | Callback nat cb_value
  | OnError nat string
  | OnFailed nat
  | ConsoleError string
  | Reject nat

record world =
  this :: ws_client
  sessions :: "session list"
  timers :: "timer list"
  ticks :: nat
  log :: "effect list"

definition init :: "ws_client \<Rightarrow> world" where
  "init c = \<lparr>this = c, sessions = [], timers = [], ticks = 0, log = []\<rparr>"

definition emit :: "effect \<Rightarrow> world \<Rightarrow> world" where
  "emit e w = w\<lparr>log := log w @ [e]\<rparr>"

definition options :: "session \<Rightarrow> stream_options" where
  "options s = spread WS_DEFAULT_OPTIONS (userOptions s)"

text \<open>The session whose handshake has returned a subscription id: only then do the
  \<open>Subscription\<close> object and the handlers of the transport exist.\<close>

definition live :: "world \<Rightarrow> nat \<Rightarrow> session option" where
  "live w i =
     (if i < length (sessions w) then
        (case phase (sessions w ! i) of Subscribed _ \<Rightarrow> Some (sessions w ! i) | _ \<Rightarrow> None)
      else None)"

definition upd_session :: "nat \<Rightarrow> (session \<Rightarrow> session) \<Rightarrow> world \<Rightarrow> world" where
  "upd_session i f w = w\<lparr>sessions := (sessions w)[i := f (sessions w ! i)]\<rparr>"

subsection \<open>Timers\<close>

definition setTimeout :: "nat \<Rightarrow> int \<Rightarrow> world \<Rightarrow> nat \<times> world" where
  "setTimeout i d w =
     (length (timers w), w\<lparr>timers := timers w @ [\<lparr>owner = i, ms = d, tstate = Pending\<rparr>]\<rparr>)"

definition clearTimeout :: "nat \<Rightarrow> world \<Rightarrow> world" where
  "clearTimeout t w =
     (if t < length (timers w) \<and> tstate (timers w ! t) = Pending
      then w\<lparr>timers := (timers w)[t := (timers w ! t)\<lparr>tstate := Cleared\<rparr>]\<rparr>
      else w)"

definition clearReconnectTimer :: "world \<Rightarrow> world" where
  "clearReconnectTimer w =
     (case reconnectTimer (this w) of
        None \<Rightarrow> w
      | Some t \<Rightarrow>
          (let w1 = clearTimeout t w
           in w1\<lparr>this := (this w1)\<lparr>reconnectTimer := None\<rparr>\<rparr>))"

subsection \<open>subscribe\<close>

text \<open>The part of \<open>subscribe\<close> before the \<open>await\<close>: a new transport on the stored URL, and
  the request is sent.\<close>

definition subscribe_call :: "origin \<Rightarrow> request \<Rightarrow> stream_options \<Rightarrow> world \<Rightarrow> world" where
  "subscribe_call who req uo w =
     emit (Connect (href (url (this w))))
       (w\<lparr>sessions := sessions w @
            [\<lparr>body = req, userOptions = uo, target = href (url (this w)), origin = who,
              phase = Connecting, callback = None, closed = False\<rparr>]\<rparr>)"

text \<open>The part after the \<open>await\<close>, when the request resolved with a subscription id.\<close>

definition subscribe_resume :: "nat \<Rightarrow> nat \<Rightarrow> world \<Rightarrow> world" where
  "subscribe_resume i sid w =
     (if i < length (sessions w) \<and> phase (sessions w ! i) = Connecting then
        upd_session i (\<lambda>s. s\<lparr>phase := Subscribed sid\<rparr>)
          (w\<lparr>this := (this w)\<lparr>explicitlyClosed := False, retriesCount := 0\<rparr>\<rparr>)
      else w)"

text \<open>The request rejected (the timeout, or an error of the node). The promise of a caller
  rejects; the timer callback catches and reports to \<open>onError\<close> of the options it closed
  over, those of the session that set the timer.\<close>

definition subscribe_reject :: "nat \<Rightarrow> world \<Rightarrow> world" where
  "subscribe_reject i w =
     (if i < length (sessions w) \<and> phase (sessions w ! i) = Connecting then
        (let w1 = upd_session i (\<lambda>s. s\<lparr>phase := Rejected\<rparr>) w
         in case origin (sessions w ! i) of
              ByCaller \<Rightarrow> emit (Reject i) w1
            | ByTimer p \<Rightarrow>
                (if p < length (sessions w) then
                   (case onError (options (sessions w ! p)) of
                      None \<Rightarrow> w1
                    | Some h \<Rightarrow> emit (OnError h ''Failed to reconnect'') w1)
                 else w1))
      else w)"

subsection \<open>The Subscription object\<close>

definition client_close :: "nat \<Rightarrow> world \<Rightarrow> world" where
  "client_close i w = upd_session i (\<lambda>s. s\<lparr>closed := True\<rparr>) w"

text \<open>\<open>next\<close> registers the two handlers on the client of the transport library. The library
  is not part of the sources; as the design document has it, a registration replaces the
  one before it, so a session has one callback at most.\<close>

definition next_cb :: "nat \<Rightarrow> nat \<Rightarrow> world \<Rightarrow> world" where
  "next_cb i cb w =
     (case live w i of None \<Rightarrow> w | Some _ \<Rightarrow> upd_session i (\<lambda>s. s\<lparr>callback := Some cb\<rparr>) w)"

definition close_sub :: "nat \<Rightarrow> world \<Rightarrow> world" where
  "close_sub i w =
     (case live w i of
        None \<Rightarrow> w
      | Some _ \<Rightarrow> client_close i (w\<lparr>this := (this w)\<lparr>explicitlyClosed := True\<rparr>\<rparr>))"

definition getSubscriptionId :: "world \<Rightarrow> nat \<Rightarrow> nat option" where
  "getSubscriptionId w i =
     (if i < length (sessions w) then
        (case phase (sessions w ! i) of Subscribed sid \<Rightarrow> Some sid | _ \<Rightarrow> None)
      else None)"

definition isConnectionOpen :: "world \<Rightarrow> nat \<Rightarrow> bool" where
  "isConnectionOpen w i = isOpen (this w)"

subsection \<open>Handlers of the client of the transport library\<close>

text \<open>\<open>client.onError\<close>: the error goes to the callback.\<close>

definition on_client_error :: "nat \<Rightarrow> rpc_error \<Rightarrow> world \<Rightarrow> world" where
  "on_client_error i e w =
     (case live w i of
        None \<Rightarrow> w
      | Some s \<Rightarrow>
          (case callback s of None \<Rightarrow> w | Some cb \<Rightarrow> emit (Callback cb (Failure e)) w))"

text \<open>\<open>filter && !filter(result.data)\<close>\<close>

definition rejected_by :: "(payload \<Rightarrow> bool) optional \<Rightarrow> payload \<Rightarrow> bool" where
  "rejected_by f d = (case f of Present p \<Rightarrow> \<not> p d | _ \<Rightarrow> False)"

text \<open>\<open>client.onNotification\<close>\<close>

definition on_notification :: "nat \<Rightarrow> rpc_data \<Rightarrow> world \<Rightarrow> world" where
  "on_notification i r w =
     (case live w i of
        None \<Rightarrow> w
      | Some s \<Rightarrow>
          (case callback s of
             None \<Rightarrow> w
           | Some cb \<Rightarrow>
               (if rejected_by (filter_fn (options s)) (data r) then w
                else
                  (let w1 = emit (Callback cb (Result r)) w
                   in if once (options s) then client_close i w1 else w1))))"

subsection \<open>Handlers of the connection\<close>

definition onopen :: "nat \<Rightarrow> world \<Rightarrow> world" where
  "onopen i w =
     (case live w i of
        None \<Rightarrow> w
      | Some _ \<Rightarrow> w\<lparr>this := (this w)\<lparr>isOpen := True, retriesCount := 0\<rparr>\<rparr>)"

text \<open>\<open>reconnectSettings.retries ?? -1\<close> and \<open>reconnectSettings.delay ?? 1000\<close>\<close>

definition maxRetries :: "reconnect_settings \<Rightarrow> retries" where
  "maxRetries rs = (case retries rs of None \<Rightarrow> RNum (- 1) | Some r \<Rightarrow> r)"

definition delay_ms :: "reconnect_settings \<Rightarrow> int" where
  "delay_ms rs = (case delay rs of None \<Rightarrow> 1000 | Some d \<Rightarrow> d)"

text \<open>The source's last branch, \<open>return false\<close> for a value that is neither a number nor a
  function, is excluded by the type of \<open>retries\<close>.\<close>

fun canKeepRetrying :: "retries \<Rightarrow> world \<Rightarrow> bool \<times> world" where
  "canKeepRetrying (RNum n) w = (n < 0 \<or> int (retriesCount (this w)) < n, w)"
| "canKeepRetrying (RFun f) w = (f (ticks w), w\<lparr>ticks := Suc (ticks w)\<rparr>)"

definition schedule_reconnect :: "nat \<Rightarrow> int \<Rightarrow> world \<Rightarrow> world" where
  "schedule_reconnect i d w =
     (let w1 = w\<lparr>this := (this w)\<lparr>retriesCount := Suc (retriesCount (this w))\<rparr>\<rparr>;
          w2 = clearReconnectTimer w1;
          (t, w3) = setTimeout i d w2
      in w3\<lparr>this := (this w3)\<lparr>reconnectTimer := Some t\<rparr>\<rparr>)"

definition onclose :: "nat \<Rightarrow> world \<Rightarrow> world" where
  "onclose i w =
     (case live w i of
        None \<Rightarrow> w
      | Some s \<Rightarrow>
          (let w1 = w\<lparr>this := (this w)\<lparr>isOpen := False\<rparr>\<rparr>
           in if \<not> explicitlyClosed (this w1) then
                (case reconnectSettings (options s) of
                   Some rs \<Rightarrow>
                     (let (ok, w2) = canKeepRetrying (maxRetries rs) w1
                      in if ok then schedule_reconnect i (delay_ms rs) w2
                         else (case onFailed rs of None \<Rightarrow> w2 | Some f \<Rightarrow> emit (OnFailed f) w2))
                 | None \<Rightarrow>
                     (case onError (options s) of
                        None \<Rightarrow> w1
                      | Some h \<Rightarrow> emit (OnError h ''WebSocket connection closed unexpectedly'') w1))
              else w1))"

definition onerror :: "nat \<Rightarrow> string \<Rightarrow> world \<Rightarrow> world" where
  "onerror i m w =
     (case live w i of
        None \<Rightarrow> w
      | Some s \<Rightarrow>
          (let w1 = emit (ConsoleError ''WebSocket error'') w;
               w2 = w1\<lparr>this := (this w1)\<lparr>isOpen := False\<rparr>\<rparr>
           in case onError (options s) of None \<Rightarrow> w2 | Some h \<Rightarrow> emit (OnError h m) w2))"

text \<open>The callback given to \<open>setTimeout\<close> by the close handler of session \<open>owner\<close>: it calls
  \<open>subscribe\<close> with the request and the user options of that session. A cleared timer
  does not fire.\<close>

definition on_timeout :: "nat \<Rightarrow> world \<Rightarrow> world" where
  "on_timeout t w =
     (if t < length (timers w) \<and> tstate (timers w ! t) = Pending then
        (let p = owner (timers w ! t);
             w1 = w\<lparr>timers := (timers w)[t := (timers w ! t)\<lparr>tstate := Fired\<rparr>]\<rparr>
         in if p < length (sessions w1)
            then subscribe_call (ByTimer p) (body (sessions w1 ! p)) (userOptions (sessions w1 ! p)) w1
            else w1)
      else w)"

subsection \<open>The event loop\<close>

datatype event =
    Subscribe request stream_options
  | HandshakeOk nat nat
  | HandshakeFail nat
  | Next nat nat
  | Close nat
  | ConnOpen nat
  | ConnClose nat
  | ConnError nat string
  | Notification nat rpc_data
  | ClientError nat rpc_error
  | Timeout nat

fun step :: "event \<Rightarrow> world \<Rightarrow> world" where
  "step (Subscribe req uo) w = subscribe_call ByCaller req uo w"
| "step (HandshakeOk i sid) w = subscribe_resume i sid w"
| "step (HandshakeFail i) w = subscribe_reject i w"
| "step (Next i cb) w = next_cb i cb w"
| "step (Close i) w = close_sub i w"
| "step (ConnOpen i) w = onopen i w"
| "step (ConnClose i) w = onclose i w"
| "step (ConnError i m) w = onerror i m w"
| "step (Notification i r) w = on_notification i r w"
| "step (ClientError i e) w = on_client_error i e w"
| "step (Timeout t) w = on_timeout t w"

fun run :: "event list \<Rightarrow> world \<Rightarrow> world" where
  "run [] w = w"
| "run (e # es) w = run es (step e w)"

subsection \<open>Sample inputs\<close>

text \<open>A node on the local machine, a mail address (a URL with an opaque path), and a
  parser that knows these two addresses only.\<close>

definition local_url :: url where
  "local_url =
     \<lparr>protocol = ''ws:'', host = ''localhost:8648'', pathname = ''/rpc'', search = [], hash = [],
      opaque_path = False\<rparr>"

definition mail_url :: url where
  "mail_url =
     \<lparr>protocol = ''mailto:'', host = [], pathname = ''a@b.c'', search = [], hash = [],
      opaque_path = True\<rparr>"

definition parse_local :: "string \<Rightarrow> url option" where
  "parse_local s =
     (if s = ''ws://localhost:8648/rpc'' then Some local_url
      else if s = ''mailto:a@b.c'' then Some mail_url
      else None)"

text \<open>The client the constructor makes of the mail address.\<close>

definition mail_client :: ws_client where
  "mail_client =
     \<lparr>url = mail_url, isOpen = False, explicitlyClosed = False, retriesCount = 0,
      reconnectTimer = None\<rparr>"

definition local_client :: ws_client where
  "local_client =
     \<lparr>url = local_url\<lparr>pathname := ''/ws''\<rparr>, isOpen = False, explicitlyClosed = False,
      retriesCount = 0, reconnectTimer = None\<rparr>"

definition head_request :: request where
  "head_request = \<lparr>rmethod = ''subscribeForHeadBlock'', params = []\<rparr>"

definition stream_opts ::
  "bool \<Rightarrow> (payload \<Rightarrow> bool) optional \<Rightarrow> nat option \<Rightarrow> auto_reconnect option \<Rightarrow> stream_options" where
  "stream_opts o1 f e a =
     \<lparr>once = o1, filter_fn = f, timeout = 5000, onError = e, autoReconnect = a\<rparr>"

definition above_ten :: "payload \<Rightarrow> bool" where
  "above_ten d = (10 < d)"

text \<open>Two subscriptions on one client, each with a consumer: the first filters and is
  \<open>once\<close>, the second has the default options.\<close>

definition two_consumers :: world where
  "two_consumers =
     run [Subscribe head_request (stream_opts True (Present above_ten) None None),
          HandshakeOk 0 7, Next 0 3,
          Subscribe head_request (stream_opts False Missing None None),
          HandshakeOk 1 8, Next 1 4]
       (init local_client)"

text \<open>A \<open>once\<close> subscription whose filter accepts nothing.\<close>

definition deaf_once :: world where
  "deaf_once =
     run [Subscribe head_request (stream_opts True (Present (\<lambda>_. False)) None None),
          HandshakeOk 0 7, Next 0 3]
       (init local_client)"

text \<open>Subscriptions with \<open>autoReconnect: true\<close>: one, and two on the same client.\<close>

definition reconnecting :: stream_options where
  "reconnecting = stream_opts False Missing None (Some (ARBool True))"

definition one_live :: world where
  "one_live = run [Subscribe head_request reconnecting, HandshakeOk 0 7] (init local_client)"

definition two_live :: world where
  "two_live =
     run [Subscribe head_request reconnecting, HandshakeOk 0 7,
          Subscribe head_request reconnecting, HandshakeOk 1 8]
       (init local_client)"

text \<open>The transport of the only subscription has closed and the reconnect timer runs.\<close>

definition pending_reconnect :: world where
  "pending_reconnect = step (ConnClose 0) one_live"

text \<open>A consumer whose transport closed, whose timer fired and whose second handshake
  returned the id 8.\<close>

definition reconnected :: world where
  "reconnected =
     run [Subscribe head_request reconnecting, HandshakeOk 0 7, Next 0 3, ConnClose 0,
          Timeout 0, HandshakeOk 1 8]
       (init local_client)"

text \<open>\<open>once\<close> together with \<open>autoReconnect: true\<close>, and a consumer.\<close>

definition once_reconnecting :: world where
  "once_reconnecting =
     run [Subscribe head_request (stream_opts True Missing (Some 9) (Some (ARBool True))),
          HandshakeOk 0 7, Next 0 3]
       (init local_client)"

text \<open>\<open>once\<close> with an \<open>onError\<close> and no \<open>autoReconnect\<close>, and a consumer.\<close>

definition once_plain :: world where
  "once_plain =
     run [Subscribe head_request (stream_opts True Missing (Some 9) None), HandshakeOk 0 7,
          Next 0 3]
       (init local_client)"

text \<open>No retry allowed, no \<open>onFailed\<close>, but an \<open>onError\<close>.\<close>

definition no_retry :: reconnect_settings where
  "no_retry = \<lparr>retries = Some (RNum 0), delay = None, onFailed = None\<rparr>"

definition unretried :: world where
  "unretried =
     run [Subscribe head_request (stream_opts False Missing (Some 9) (Some (ARObj no_retry))),
          HandshakeOk 0 7]
       (init local_client)"

text \<open>Two retries, 10 ms apart, with an \<open>onFailed\<close>.\<close>

definition two_retries :: reconnect_settings where
  "two_retries = \<lparr>retries = Some (RNum 2), delay = Some 10, onFailed = Some 4\<rparr>"

definition retried_twice :: world where
  "retried_twice =
     run [Subscribe head_request (stream_opts False Missing (Some 9) (Some (ARObj two_retries))),
          HandshakeOk 0 7]
       (init local_client)"

text \<open>Both retries were used: two closes, each followed by its timer and a handshake that
  failed.\<close>

definition exhausted :: world where
  "exhausted =
     run [ConnClose 0, Timeout 0, HandshakeFail 1, ConnClose 0, Timeout 1, HandshakeFail 2]
       retried_twice"

subsection \<open>Kinds of events\<close>

text \<open>The event that completes a handshake.\<close>

fun resumes :: "event \<Rightarrow> bool" where
  "resumes (HandshakeOk _ _) = True"
| "resumes _ = False"




section \<open>Properties\<close>

lemmas ws_defs = init_def emit_def options_def spread_def WS_DEFAULT_OPTIONS_def
  reconnectSettings_def no_settings_def live_def upd_session_def setTimeout_def clearTimeout_def
  clearReconnectTimer_def subscribe_call_def subscribe_resume_def subscribe_reject_def
  client_close_def next_cb_def close_sub_def on_client_error_def rejected_by_def
  on_notification_def onopen_def schedule_reconnect_def onclose_def onerror_def on_timeout_def
  href_def maxRetries_def delay_ms_def getSubscriptionId_def isConnectionOpen_def

lemmas sample_defs = local_url_def local_client_def head_request_def stream_opts_def
  reconnecting_def no_retry_def two_retries_def

lemmas world_defs = one_live_def two_live_def pending_reconnect_def reconnected_def
  once_reconnecting_def once_plain_def unretried_def retried_twice_def exhausted_def
  two_consumers_def
  deaf_once_def

subsection \<open>Basic facts\<close>




lemma canKeepRetrying_pair:
  "canKeepRetrying r w = (ok, w2) \<Longrightarrow>
     sessions w2 = sessions w \<and> log w2 = log w \<and> timers w2 = timers w \<and> this w2 = this w"
  by (cases r) auto

lemma canKeepRetrying_fst_isOpen:
  "fst (canKeepRetrying r (w\<lparr>this := (this w)\<lparr>isOpen := b\<rparr>\<rparr>)) = fst (canKeepRetrying r w)"
  by (cases r) simp_all

lemma sessions_onclose: "sessions (onclose i w) = sessions w"
  by (auto simp: onclose_def schedule_reconnect_def clearReconnectTimer_def clearTimeout_def
      setTimeout_def emit_def Let_def
      split: option.splits prod.splits dest: canKeepRetrying_pair)

lemma url_onclose: "url (this (onclose i w)) = url (this w)"
  by (auto simp: onclose_def schedule_reconnect_def clearReconnectTimer_def clearTimeout_def
      setTimeout_def emit_def Let_def
      split: option.splits prod.splits dest: canKeepRetrying_pair)

lemma map_update_same:
  assumes "\<And>x. g (f x) = g x"
  shows "map g (xs[i := f (xs ! i)]) = map g xs"
proof (cases "i < length xs")
  case True
  then show ?thesis using assms by (simp add: map_update list_update_same_conv)
next
  case False
  then show ?thesis by (simp add: list_update_beyond)
qed

subsection \<open>The notification router\<close>



text \<open>
  C8. An error reported by the transport client goes to the registered callback as an
  error value, whatever the filter and \<open>once\<close> are; the only change is the call of the
  callback: no flag changes and no client is closed.
\<close>

theorem protocol_error_reaches_callback:
  assumes "live w i = Some s" and "callback s = Some cb"
  shows "step (ClientError i e) w = w\<lparr>log := log w @ [Callback cb (Failure e)]\<rparr>"
  using assms by (simp add: on_client_error_def emit_def)

theorem protocol_error_reaches_callback_witness:
  "step (ClientError 0 \<lparr>code = - 32700, message = ''Parse error''\<rparr>) deaf_once
     = deaf_once\<lparr>log := log deaf_once @
         [Callback 3 (Failure \<lparr>code = - 32700, message = ''Parse error''\<rparr>)]\<rparr>
   \<and> \<not> closed (sessions deaf_once ! 0)
   \<and> rejected_by (filter_fn (options (sessions deaf_once ! 0))) 20"
proof -
  let ?s0 = "sessions deaf_once ! 0"
  have l0: "live deaf_once 0 = Some ?s0" and c0: "callback ?s0 = Some 3"
    by (simp_all add: world_defs sample_defs ws_defs)
  have r: "\<not> closed ?s0 \<and> rejected_by (filter_fn (options ?s0)) 20"
    by (simp add: world_defs sample_defs ws_defs)
  from protocol_error_reaches_callback [OF l0 c0] r show ?thesis by blast
qed

text \<open>
  C5. With \<open>once\<close>, the first accepted notification calls the callback and then
  \<open>client.close()\<close>, not the \<open>close\<close> of the Subscription: the transport client is closed
  but the flag \<open>explicitlyClosed\<close> stays false, where \<open>close()\<close> sets it. The close event
  that follows is therefore handled as an unexpected one: with \<open>autoReconnect: true\<close> it
  sets the reconnect timer, and the timer subscribes again (after \<open>close()\<close> the same close
  event sets no timer); without \<open>autoReconnect\<close> it reports
  \<open>WebSocket connection closed unexpectedly\<close> to \<open>onError\<close>.
\<close>

theorem once_close_is_taken_for_unexpected:
  "log (step (Notification 0 \<lparr>data = 20, metadata = []\<rparr>) once_reconnecting)
     = log once_reconnecting @ [Callback 3 (Result \<lparr>data = 20, metadata = []\<rparr>)]
   \<and> closed (sessions (step (Notification 0 \<lparr>data = 20, metadata = []\<rparr>) once_reconnecting) ! 0)
   \<and> \<not> explicitlyClosed
         (this (step (Notification 0 \<lparr>data = 20, metadata = []\<rparr>) once_reconnecting))
   \<and> explicitlyClosed (this (step (Close 0) once_reconnecting))
   \<and> map tstate
         (timers (run [Notification 0 \<lparr>data = 20, metadata = []\<rparr>, ConnClose 0] once_reconnecting))
       = [Pending]
   \<and> map origin
         (sessions (run [Notification 0 \<lparr>data = 20, metadata = []\<rparr>, ConnClose 0, Timeout 0]
            once_reconnecting))
       = [ByCaller, ByTimer 0]
   \<and> timers (run [Close 0, ConnClose 0] once_reconnecting) = []
   \<and> log (run [Notification 0 \<lparr>data = 20, metadata = []\<rparr>, ConnClose 0] once_plain)
       = log once_plain @ [Callback 3 (Result \<lparr>data = 20, metadata = []\<rparr>),
                           OnError 9 ''WebSocket connection closed unexpectedly'']"
  by (simp add: world_defs sample_defs ws_defs)

subsection \<open>Closing and reconnecting\<close>

text \<open>
  C1. \<open>close()\<close> while the reconnect timer runs: the flag is set, but the timer is not
  cleared (it is still pending, and \<open>reconnectTimer\<close> still holds it); when it fires, its
  callback calls \<open>subscribe\<close> again without reading the flag, a new transport is opened,
  and the handshake of the new session clears the flag.
\<close>

theorem close_during_delay_still_reconnects:
  "explicitlyClosed (this (step (Close 0) pending_reconnect))
   \<and> reconnectTimer (this (step (Close 0) pending_reconnect)) = Some 0
   \<and> map tstate (timers (step (Close 0) pending_reconnect)) = [Pending]
   \<and> map origin (sessions (run [Close 0, Timeout 0] pending_reconnect)) = [ByCaller, ByTimer 0]
   \<and> log (run [Close 0, Timeout 0] pending_reconnect)
       = log pending_reconnect @ [Connect ''ws://localhost:8648/ws'']
   \<and> \<not> explicitlyClosed (this (run [Close 0, Timeout 0, HandshakeOk 1 8] pending_reconnect))"
  by (simp add: world_defs sample_defs ws_defs)

text \<open>
  C7, as the claim states it, fails: the flag set by \<open>close()\<close> is cleared by the handshake
  of a later \<open>subscribe\<close> on the same client, and the close event of the closed session
  that arrives after it sets the reconnect timer, which subscribes again.
\<close>

theorem flag_cleared_by_later_subscribe_counterexample:
  "explicitlyClosed (this (step (Close 0) one_live))
   \<and> \<not> explicitlyClosed
         (this (run [Close 0, Subscribe head_request reconnecting, HandshakeOk 1 8] one_live))
   \<and> map tstate
         (timers (run [Close 0, Subscribe head_request reconnecting, HandshakeOk 1 8, ConnClose 0]
            one_live))
       = [Pending]
   \<and> map origin
         (sessions (run [Close 0, Subscribe head_request reconnecting, HandshakeOk 1 8, ConnClose 0,
            Timeout 0] one_live))
       = [ByCaller, ByCaller, ByTimer 0]"
  by (simp add: world_defs sample_defs ws_defs)

lemma step_keeps_flag:
  assumes "explicitlyClosed (this w)" and "\<not> resumes e"
  shows "explicitlyClosed (this (step e w)) \<and> length (timers (step e w)) = length (timers w)"
  using assms
  by (cases e)
     (auto simp: subscribe_call_def emit_def subscribe_reject_def upd_session_def next_cb_def
        close_sub_def client_close_def onopen_def onclose_def onerror_def on_notification_def
        on_client_error_def on_timeout_def Let_def
        split: option.splits origin.splits if_splits)

text \<open>
  C7, amended. The flag is a field of the client. Once set, it stays set as long as no
  handshake completes on that client, and during that time no timer is set: no close
  handler schedules a reconnect.
\<close>

theorem flag_stays_until_handshake:
  assumes "explicitlyClosed (this w)" and "\<forall>e \<in> set es. \<not> resumes e"
  shows "explicitlyClosed (this (run es w)) \<and> length (timers (run es w)) = length (timers w)"
  using assms
proof (induction es arbitrary: w)
  case Nil
  then show ?case by simp
next
  case (Cons e es)
  from Cons.prems have "explicitlyClosed (this (step e w))"
    and "length (timers (step e w)) = length (timers w)"
    using step_keeps_flag [of w e] by simp_all
  with Cons.IH [of "step e w"] Cons.prems show ?case by simp
qed

theorem flag_stays_until_handshake_witness:
  "explicitlyClosed
     (this (run [ConnClose 0, Subscribe head_request reconnecting, ConnError 0 ''reset'',
        ConnClose 0] (step (Close 0) one_live)))
   \<and> length (timers (run [ConnClose 0, Subscribe head_request reconnecting, ConnError 0 ''reset'',
        ConnClose 0] (step (Close 0) one_live)))
       = length (timers (step (Close 0) one_live))"
proof -
  have "explicitlyClosed (this (step (Close 0) one_live))"
    by (simp add: world_defs sample_defs ws_defs)
  then show ?thesis
    by (rule flag_stays_until_handshake) simp
qed

text \<open>
  C9, as the claim states it, fails: with two subscriptions on one client, the unexpected
  close of the second sets a reconnect timer, but not after \<open>close()\<close> on the first; a
  close of the first advances the one retry counter, and an open event of the first makes
  \<open>isConnectionOpen\<close> of the second true.
\<close>

theorem sessions_share_fields_counterexample:
  "map tstate (timers (run [ConnClose 1] two_live)) = [Pending]
   \<and> timers (run [Close 0, ConnClose 1] two_live) = []
   \<and> retriesCount (this (run [ConnClose 0] two_live)) = 1
   \<and> isConnectionOpen (run [ConnOpen 0] two_live) 1
   \<and> \<not> isConnectionOpen two_live 1"
  by (simp add: world_defs sample_defs ws_defs)

lemma live_after_close_sub:
  assumes "live w i = Some s"
  shows "\<exists>s'. live (close_sub j w) i = Some s' \<and> userOptions s' = userOptions s"
  using assms
  by (auto simp: live_def close_sub_def client_close_def upd_session_def nth_list_update
      split: if_splits phase.splits)

text \<open>
  C9, amended. The four fields belong to the client object and are shared by all the
  sessions of that client: \<open>close()\<close> on any live session sets the one flag, after which the
  close event of any live session of the client sets no timer, calls no callback and
  leaves the retry counter as it was; and \<open>isConnectionOpen\<close> answers the same for all.
\<close>

theorem close_of_one_stops_reconnect_of_all:
  assumes "live w j = Some sj" and "live w i = Some si"
  shows "explicitlyClosed (this (step (Close j) w))
       \<and> timers (run [Close j, ConnClose i] w) = timers w
       \<and> log (run [Close j, ConnClose i] w) = log w
       \<and> retriesCount (this (run [Close j, ConnClose i] w)) = retriesCount (this w)
       \<and> isConnectionOpen w i = isConnectionOpen w j"
proof -
  have f: "explicitlyClosed (this (close_sub j w))" "timers (close_sub j w) = timers w"
    "log (close_sub j w) = log w" "retriesCount (this (close_sub j w)) = retriesCount (this w)"
    using assms(1) by (simp_all add: close_sub_def client_close_def upd_session_def)
  obtain s' where "live (close_sub j w) i = Some s'"
    using live_after_close_sub [OF assms(2)] by blast
  with f show ?thesis
    by (simp add: onclose_def Let_def isConnectionOpen_def)
qed

theorem close_of_one_stops_reconnect_of_all_witness:
  "explicitlyClosed (this (step (Close 0) two_live))
   \<and> timers (run [Close 0, ConnClose 1] two_live) = timers two_live
   \<and> log (run [Close 0, ConnClose 1] two_live) = log two_live
   \<and> retriesCount (this (run [Close 0, ConnClose 1] two_live)) = retriesCount (this two_live)
   \<and> isConnectionOpen two_live 1 = isConnectionOpen two_live 0"
proof -
  have "live two_live 0 = Some (sessions two_live ! 0)"
    and "live two_live 1 = Some (sessions two_live ! 1)"
    by (simp_all add: world_defs sample_defs ws_defs)
  then show ?thesis by (rule close_of_one_stops_reconnect_of_all)
qed






subsection \<open>The reconnect policy\<close>








text \<open>
  C4, as the claim states it, fails: with no retry allowed, no \<open>onFailed\<close> and an \<open>onError\<close>,
  the unexpected close calls nothing, \<open>onError\<close> neither.
\<close>

theorem exhaustion_without_onFailed_counterexample:
  "reconnectSettings (options (sessions unretried ! 0)) = Some no_retry
   \<and> \<not> fst (canKeepRetrying (maxRetries no_retry) unretried)
   \<and> onFailed no_retry = None
   \<and> onError (options (sessions unretried ! 0)) = Some 9
   \<and> \<not> explicitlyClosed (this unretried)
   \<and> log (step (ConnClose 0) unretried) = log unretried
   \<and> timers (step (ConnClose 0) unretried) = []"
  by (simp add: world_defs sample_defs ws_defs)

text \<open>
  C4, amended. When the policy denies the retry on an unexpected close, \<open>onFailed\<close> is
  called if it was configured; otherwise no callback is called (\<open>onError\<close> is not), and no
  timer is set.
\<close>

theorem exhaustion_calls_onFailed_only:
  assumes "live w i = Some s" and "\<not> explicitlyClosed (this w)"
    and "reconnectSettings (options s) = Some rs"
    and "\<not> fst (canKeepRetrying (maxRetries rs) w)"
  shows "log (step (ConnClose i) w)
           = log w @ (case onFailed rs of None \<Rightarrow> [] | Some f \<Rightarrow> [OnFailed f])
       \<and> timers (step (ConnClose i) w) = timers w"
proof -
  let ?w1 = "w\<lparr>this := (this w)\<lparr>isOpen := False\<rparr>\<rparr>"
  obtain ok w2 where c: "canKeepRetrying (maxRetries rs) ?w1 = (ok, w2)"
    by (cases "canKeepRetrying (maxRetries rs) ?w1")
  have "\<not> ok"
    using c assms(4) canKeepRetrying_fst_isOpen [where r = "maxRetries rs" and w = w and b = False]
    by simp
  moreover have "log w2 = log w" "timers w2 = timers w"
    using canKeepRetrying_pair [OF c] by simp_all
  ultimately show ?thesis using assms(1-3) c
    by (simp add: onclose_def Let_def emit_def split: option.splits)
qed

theorem exhaustion_calls_onFailed_only_witness:
  "log (step (ConnClose 0) exhausted) = log exhausted @ [OnFailed 4]
   \<and> timers (step (ConnClose 0) exhausted) = timers exhausted
   \<and> onError (options (sessions exhausted ! 0)) = Some 9"
proof -
  have l: "live exhausted 0 = Some (sessions exhausted ! 0)"
    and c: "\<not> explicitlyClosed (this exhausted)"
    and r: "reconnectSettings (options (sessions exhausted ! 0)) = Some two_retries"
    and d: "\<not> fst (canKeepRetrying (maxRetries two_retries) exhausted)"
    by (simp_all add: world_defs sample_defs ws_defs)
  have v: "onFailed two_retries = Some 4" "onError (options (sessions exhausted ! 0)) = Some 9"
    by (simp_all add: world_defs sample_defs ws_defs)
  from exhaustion_calls_onFailed_only [OF l c r d] v show ?thesis
    by (simp del: step.simps)
qed

subsection \<open>The endpoint URL\<close>

lemma step_keeps_url: "url (this (step e w)) = url (this w)"
  by (cases e)
     (auto simp: subscribe_call_def emit_def subscribe_resume_def subscribe_reject_def
        upd_session_def next_cb_def close_sub_def client_close_def onopen_def url_onclose
        onerror_def on_notification_def on_client_error_def on_timeout_def Let_def
        split: option.splits origin.splits)

lemma targets_upd_session:
  assumes "\<And>s. target (f s) = target s"
  shows "map target (sessions (upd_session i f w)) = map target (sessions w)"
  using assms by (simp add: upd_session_def map_update_same)

text \<open>A step adds no transport but on the client's URL.\<close>

lemma step_targets:
  "set (map target (sessions (step e w)))
     \<subseteq> insert (href (url (this w))) (set (map target (sessions w)))"
proof (cases e)
  case (ConnClose i)
  then show ?thesis by (auto simp: sessions_onclose)
next
  case (Timeout t)
  then show ?thesis by (auto simp: on_timeout_def subscribe_call_def emit_def Let_def)
next
  case (Subscribe r u)
  then show ?thesis by (auto simp: subscribe_call_def emit_def)
next
  case (HandshakeOk i sid)
  have "map target (sessions (subscribe_resume i sid w)) = map target (sessions w)"
    using targets_upd_session [of "\<lambda>s. s\<lparr>phase := Subscribed sid\<rparr>" i]
    by (simp add: subscribe_resume_def upd_session_def)
  with HandshakeOk show ?thesis by auto
next
  case (HandshakeFail i)
  have "map target (sessions (subscribe_reject i w)) = map target (sessions w)"
    using targets_upd_session [of "\<lambda>s. s\<lparr>phase := Rejected\<rparr>" i w]
    by (simp add: subscribe_reject_def emit_def Let_def upd_session_def
        split: origin.splits option.splits)
  with HandshakeFail show ?thesis by auto
next
  case (Next i cb)
  have "map target (sessions (next_cb i cb w)) = map target (sessions w)"
    using targets_upd_session [of "\<lambda>s. s\<lparr>callback := Some cb\<rparr>" i w]
    by (simp add: next_cb_def split: option.splits)
  with Next show ?thesis by auto
next
  case (Close i)
  have "map target (sessions (close_sub i w)) = map target (sessions w)"
    using targets_upd_session [of "\<lambda>s. s\<lparr>closed := True\<rparr>" i]
    by (simp add: close_sub_def client_close_def upd_session_def split: option.splits)
  with Close show ?thesis by auto
next
  case (ConnOpen i)
  then show ?thesis by (auto simp: onopen_def split: option.splits)
next
  case (ConnError i m)
  then show ?thesis by (auto simp: onerror_def emit_def Let_def split: option.splits)
next
  case (Notification i r)
  have "map target (sessions (on_notification i r w)) = map target (sessions w)"
    using targets_upd_session [of "\<lambda>s. s\<lparr>closed := True\<rparr>" i]
    by (simp add: on_notification_def client_close_def emit_def Let_def upd_session_def
        split: option.splits)
  with Notification show ?thesis by auto
next
  case (ClientError i err)
  then show ?thesis by (auto simp: on_client_error_def emit_def split: option.splits)
qed

lemma run_targets:
  assumes "\<forall>s \<in> set (sessions w). target s = href (url (this w))"
  shows "url (this (run es w)) = url (this w)
       \<and> (\<forall>s \<in> set (sessions (run es w)). target s = href (url (this w)))"
  using assms
proof (induction es arbitrary: w)
  case Nil
  then show ?case by simp
next
  case (Cons e es)
  have "\<forall>s \<in> set (sessions (step e w)). target s = href (url (this (step e w)))"
  proof
    fix s assume "s \<in> set (sessions (step e w))"
    then have "target s \<in> set (map target (sessions (step e w)))" by simp
    with step_targets [of e w]
    have "target s = href (url (this w)) \<or> target s \<in> set (map target (sessions w))"
      by blast
    with Cons.prems show "target s = href (url (this (step e w)))"
      by (auto simp: step_keeps_url)
  qed
  from Cons.IH [OF this] show ?case by (simp add: step_keeps_url)
qed

lemma replace_http_prefix: "replace_http (''http'' @ r) = ''ws'' @ r"
  by (simp add: replace_http_def)

text \<open>
  C10, as the claim states it, fails: for the string \<open>mailto:a@b.c\<close> the constructor
  succeeds, but the pathname is not overwritten: the parsed URL has an opaque path, on
  which setting \<open>pathname\<close> does nothing, so the stored URL keeps the caller's path
  \<open>a@b.c\<close>, and a \<open>subscribe\<close> call opens its transport on \<open>mailto:a@b.c\<close>.
\<close>

theorem opaque_path_is_kept_counterexample:
  "new_client parse_local ''mailto:a@b.c'' = Some mail_client
   \<and> pathname (url mail_client) = ''a@b.c''
   \<and> pathname (url mail_client) \<noteq> ''/ws''
   \<and> href (url mail_client) = ''mailto:a@b.c''
   \<and> map target (sessions (run [Subscribe head_request reconnecting] (init mail_client)))
       = [''mailto:a@b.c'']"
  by (simp add: new_client_def parse_local_def replace_http_def set_pathname_def mail_client_def
      mail_url_def sample_defs ws_defs)

text \<open>
  C10, amended. When the constructor succeeds, the stored URL is the parse of the given
  string with a leading \<open>http\<close> replaced by \<open>ws\<close> (so \<open>http\<close> becomes \<open>ws\<close> and \<open>https\<close> becomes
  \<open>wss\<close>); its pathname is set to \<open>/ws\<close>, whatever path the caller gave, when the parsed
  URL has a path that can be set (as the URLs of these schemes do), and the URL is
  stored as parsed when its path is opaque. The stored URL never changes, and the
  transport of every \<open>subscribe\<close> call, those of the reconnect timers too, is opened on it.
\<close>

theorem endpoint_is_normalised:
  assumes "new_client parse u = Some c"
  shows "(\<exists>wsUrl. parse (replace_http u) = Some wsUrl \<and> url c = set_pathname ''/ws'' wsUrl
            \<and> (\<not> opaque_path wsUrl \<longrightarrow> url c = wsUrl\<lparr>pathname := ''/ws''\<rparr>)
            \<and> (opaque_path wsUrl \<longrightarrow> url c = wsUrl))
       \<and> (\<forall>r. replace_http (''http'' @ r) = ''ws'' @ r)
       \<and> (\<forall>es. url (this (run es (init c))) = url c
            \<and> (\<forall>s \<in> set (sessions (run es (init c))). target s = href (url c)))"
proof -
  from assms
  have a: "\<exists>wsUrl. parse (replace_http u) = Some wsUrl \<and> url c = set_pathname ''/ws'' wsUrl
            \<and> (\<not> opaque_path wsUrl \<longrightarrow> url c = wsUrl\<lparr>pathname := ''/ws''\<rparr>)
            \<and> (opaque_path wsUrl \<longrightarrow> url c = wsUrl)"
    by (auto simp: new_client_def set_pathname_def split: option.splits)
  have b: "url (this (run es (init c))) = url c
            \<and> (\<forall>s \<in> set (sessions (run es (init c))). target s = href (url c))" for es
    using run_targets [of "init c" es] by (simp add: init_def)
  from a b replace_http_prefix show ?thesis by blast
qed

theorem endpoint_is_normalised_witness:
  "new_client parse_local ''http://localhost:8648/rpc'' = Some local_client
   \<and> url local_client = local_url\<lparr>pathname := ''/ws''\<rparr>
   \<and> href (url local_client) = ''ws://localhost:8648/ws''
   \<and> target (sessions reconnected ! 1) = ''ws://localhost:8648/ws''"
proof -
  have n: "new_client parse_local ''http://localhost:8648/rpc'' = Some local_client"
    by (simp add: new_client_def parse_local_def replace_http_def set_pathname_def sample_defs)
  have v: "href (url local_client) = ''ws://localhost:8648/ws''"
    "url local_client = local_url\<lparr>pathname := ''/ws''\<rparr>"
    by (simp_all add: href_def sample_defs)
  have "length (sessions reconnected) = 2"
    by (simp add: world_defs sample_defs ws_defs)
  then have "sessions reconnected ! 1 \<in> set (sessions reconnected)"
    by simp
  moreover have "\<forall>s \<in> set (sessions reconnected). target s = href (url local_client)"
    using endpoint_is_normalised [OF n] unfolding reconnected_def by blast
  ultimately have "target (sessions reconnected ! 1) = href (url local_client)"
    by blast
  with n v show ?thesis by simp
qed

end
